theory Spec2Isabelle
  imports Complex_Main "HOL-Library.Word"
begin

section \<open>Python values shared by the modules\<close>

text \<open>
  A Python \<^verbatim>\<open>bytes\<close> object is a list of 8-bit words. Every exception the modelled code can
  raise is a constructor of \<open>py_error\<close>; a function that can raise returns
  \<open>py_error + 'a\<close>, with \<open>Inl\<close> for the exception.
\<close>

type_synonym byte = "8 word"
type_synonym bytes = "byte list"

datatype py_error =
    ZeroDivisionError
  | IndexError
  | KeyError string
  | AttributeError
  | TypeError_MissingArgument string
  | ValueError_NeedShards nat nat
  | ValueError_Unpack
  | ValueError_NotEnoughShards int nat
  | ValueError_DecryptionFailed
  | Exception_QuotaExceeded
  | FecError
  | InvalidTag

text \<open>\<^verbatim>\<open>xs[a:b]\<close> for \<open>0 \<le> a \<le> b\<close>: Python clamps the slice to the sequence, as
  \<open>take\<close> and \<open>drop\<close> do.\<close>

definition slice :: "nat \<Rightarrow> nat \<Rightarrow> 'a list \<Rightarrow> 'a list" where
  "slice a b xs = take (b - a) (drop a xs)"

text \<open>\<^verbatim>\<open>xs.rstrip(b'\0')\<close>: every trailing zero byte is removed.\<close>

definition rstrip_zero :: "bytes \<Rightarrow> bytes" where
  "rstrip_zero xs = rev (dropWhile (\<lambda>b. b = 0) (rev xs))"

section \<open>p2p/storage.py: StorageManager\<close>

subsection \<open>Strings\<close>

text \<open>\<^verbatim>\<open>s.startswith(pattern)\<close>\<close>

fun startswith :: "string \<Rightarrow> string \<Rightarrow> bool" where
  "startswith s [] = True"
| "startswith [] (p # ps) = False"
| "startswith (c # cs) (p # ps) = (c = p \<and> startswith cs ps)"

text \<open>\<^verbatim>\<open>s.split(sep)\<close> for a separator of one character: always at least one part.\<close>

fun split_on :: "char \<Rightarrow> string \<Rightarrow> string list" where
  "split_on sep [] = [[]]"
| "split_on sep (c # cs) =
     (if c = sep then [] # split_on sep cs
      else (case split_on sep cs of
              [] \<Rightarrow> [[c]]
            | part # parts \<Rightarrow> (c # part) # parts))"

text \<open>
  \<^verbatim>\<open>s.replace(old, '')\<close>: every occurrence of \<open>old\<close>, found from the left without overlap, is
  removed.
\<close>

function remove_all :: "string \<Rightarrow> string \<Rightarrow> string" where
  "remove_all old s =
     (if old = [] \<or> s = [] then s
      else if startswith s old then remove_all old (drop (length old) s)
      else hd s # remove_all old (tl s))"
  by pat_completeness auto
termination
  by (relation "measure (\<lambda>(old, s). length s)") auto

declare remove_all.simps [simp del]

text \<open>\<^verbatim>\<open>str(n)\<close> for an int, as the f-string formats \<^verbatim>\<open>shard_index\<close>.\<close>

definition digit_char :: "nat \<Rightarrow> char" where
  "digit_char d = ''0123456789'' ! (d mod 10)"

fun str_nat :: "nat \<Rightarrow> string" where
  "str_nat n = (if n < 10 then [digit_char n] else str_nat (n div 10) @ [digit_char (n mod 10)])"

declare str_nat.simps [simp del]

definition str_int :: "int \<Rightarrow> string" where
  "str_int i = (if i < 0 then CHR ''-'' # str_nat (nat (- i)) else str_nat (nat i))"

subsection \<open>The store\<close>

text \<open>
  A \<^verbatim>\<open>datetime\<close> is a number. \<open>shard_row\<close> is a row of the table \<^verbatim>\<open>shards\<close> and
  \<open>storage_stats\<close> the row \<^verbatim>\<open>id = 1\<close> of the table \<^verbatim>\<open>storage_stats\<close>, which
  \<^verbatim>\<open>_init_database\<close> creates. The directory \<^verbatim>\<open>shards/\<close> is the list of its files, name and
  content, in the order \<^verbatim>\<open>os.listdir\<close> yields them; file names are plain names.
  \<^verbatim>\<open>hashlib.sha256(x).hexdigest()\<close> is the parameter \<open>sha256_hex\<close>, the clock the parameter
  \<open>now\<close>. The column names are the record fields, so the method parameters \<^verbatim>\<open>file_hash\<close>,
  \<^verbatim>\<open>shard_index\<close>, \<^verbatim>\<open>peer_id\<close> and \<^verbatim>\<open>expires_at\<close> are written \<open>fh\<close>, \<open>idx\<close>, \<open>owner\<close> and
  \<open>expires\<close>.
\<close>

type_synonym datetime = int

record shard_row =
  shard_hash :: string
  file_hash :: string
  shard_index :: int
  size_bytes :: int
  stored_at :: datetime
  last_verified :: "datetime option"
  peer_id :: "string option"
  expires_at :: "datetime option"

record storage_stats =
  total_shards :: int
  total_bytes :: int
  last_gc :: "datetime option"
  updated_at :: datetime

record storage_manager =
  max_storage_bytes :: int
  shards_dir :: "(string \<times> bytes) list"
  shards_table :: "shard_row list"
  stats :: storage_stats

text \<open>\<^verbatim>\<open>(stats['total_bytes'] + additional_bytes) <= self.max_storage_bytes\<close>\<close>

definition check_quota :: "storage_manager \<Rightarrow> int \<Rightarrow> bool" where
  "check_quota self additional_bytes \<longleftrightarrow>
     total_bytes (stats self) + additional_bytes \<le> max_storage_bytes self"

text \<open>
  \<^verbatim>\<open>_update_stats\<close>: a positive delta counts one shard more, any other delta (also 0) one
  shard less; the delta is added to \<^verbatim>\<open>total_bytes\<close> in both branches.
\<close>

definition update_stats :: "storage_stats \<Rightarrow> int \<Rightarrow> datetime \<Rightarrow> storage_stats" where
  "update_stats s size_delta now =
     (if size_delta > 0
      then s\<lparr>total_shards := total_shards s + 1,
             total_bytes := total_bytes s + size_delta,
             updated_at := now\<rparr>
      else s\<lparr>total_shards := total_shards s - 1,
             total_bytes := total_bytes s + size_delta,
             updated_at := now\<rparr>)"

text \<open>\<^verbatim>\<open>f"{file_hash}_{shard_index}_{shard_hash}.shard"\<close> and \<^verbatim>\<open>f"{file_hash}_{shard_index}_"\<close>\<close>

definition shard_filename :: "string \<Rightarrow> int \<Rightarrow> string \<Rightarrow> string" where
  "shard_filename fh idx sh = fh @ ''_'' @ str_int idx @ ''_'' @ sh @ ''.shard''"

definition shard_pattern :: "string \<Rightarrow> int \<Rightarrow> string" where
  "shard_pattern fh idx = fh @ ''_'' @ str_int idx @ ''_''"

text \<open>\<^verbatim>\<open>open(filepath, 'wb')\<close> and \<^verbatim>\<open>write\<close>: the file is replaced when it exists, created otherwise.\<close>

definition write_file :: "string \<Rightarrow> bytes \<Rightarrow> (string \<times> bytes) list \<Rightarrow> (string \<times> bytes) list" where
  "write_file name data dir =
     (if name \<in> fst ` set dir
      then map (\<lambda>(n, d). if n = name then (n, data) else (n, d)) dir
      else dir @ [(name, data)])"

text \<open>
  \<^verbatim>\<open>INSERT OR REPLACE\<close>: the rows in conflict with the new one, on the primary key
  \<^verbatim>\<open>shard_hash\<close> or on \<^verbatim>\<open>UNIQUE(file_hash, shard_index)\<close>, are deleted, then the row is inserted.
\<close>

definition insert_or_replace :: "shard_row \<Rightarrow> shard_row list \<Rightarrow> shard_row list" where
  "insert_or_replace row rows =
     filter (\<lambda>r. shard_hash r \<noteq> shard_hash row
                \<and> \<not> (file_hash r = file_hash row \<and> shard_index r = shard_index row)) rows
     @ [row]"

text \<open>
  \<open>store_shard\<close> returns what the method returns or raises, and the store afterwards. The
  quota check comes first and raises \<^verbatim>\<open>Exception("Storage quota exceeded")\<close> before anything is
  written.
\<close>

definition store_shard ::
  "(bytes \<Rightarrow> string) \<Rightarrow> datetime \<Rightarrow> storage_manager \<Rightarrow> string \<Rightarrow> int \<Rightarrow> bytes
     \<Rightarrow> string option \<Rightarrow> datetime option \<Rightarrow> (py_error + string) \<times> storage_manager" where
  "store_shard sha256_hex now self fh idx shard_data owner expires =
     (if \<not> check_quota self (int (length shard_data))
      then (Inl Exception_QuotaExceeded, self)
      else
        (let sh = sha256_hex shard_data;
             filename = shard_filename fh idx sh
         in (Inr sh,
             self\<lparr>shards_dir := write_file filename shard_data (shards_dir self),
                  shards_table := insert_or_replace
                      \<lparr>shard_hash = sh, file_hash = fh, shard_index = idx,
                       size_bytes = int (length shard_data), stored_at = now,
                       last_verified = Some now, peer_id = owner, expires_at = expires\<rparr>
                      (shards_table self),
                  stats := update_stats (stats self) (int (length shard_data)) now\<rparr>)))"

text \<open>
  The first file, in listing order, whose name starts with the pattern; and
  \<^verbatim>\<open>filename.split('_')[2].replace('.shard', '')\<close>, which raises IndexError on fewer than three
  parts.
\<close>

definition find_file :: "string \<Rightarrow> (string \<times> bytes) list \<Rightarrow> (string \<times> bytes) option" where
  "find_file pattern dir = find (\<lambda>(name, data). startswith name pattern) dir"

definition filename_shard_hash :: "string \<Rightarrow> py_error + string" where
  "filename_shard_hash filename =
     (let parts = split_on CHR ''_'' filename
      in if 2 < length parts then Inr (remove_all ''.shard'' (parts ! 2)) else Inl IndexError)"



text \<open>
  \<open>delete_shard\<close>: the file is removed before the row is looked up, so an exception after
  \<^verbatim>\<open>os.remove\<close> leaves the file gone and returns \<^verbatim>\<open>False\<close>.
\<close>

definition delete_shard ::
  "datetime \<Rightarrow> storage_manager \<Rightarrow> string \<Rightarrow> int \<Rightarrow> bool \<times> storage_manager" where
  "delete_shard now self fh idx =
     (case find_file (shard_pattern fh idx) (shards_dir self) of
        None \<Rightarrow> (False, self)
      | Some (filename, shard_data) \<Rightarrow>
          (let file_size = int (length shard_data);
               removed = self\<lparr>shards_dir := filter (\<lambda>(name, data). name \<noteq> filename) (shards_dir self)\<rparr>
           in (case filename_shard_hash filename of
                 Inl e \<Rightarrow> (False, removed)
               | Inr sh \<Rightarrow>
                   (True,
                    removed\<lparr>shards_table := filter (\<lambda>row. shard_hash row \<noteq> sh) (shards_table removed),
                            stats := update_stats (stats removed) (- file_size) now\<rparr>))))"

text \<open>
  \<open>garbage_collect\<close>: the rows with \<^verbatim>\<open>expires_at IS NOT NULL AND expires_at < now\<close> are
  selected first; \<open>delete_shard\<close> is called for each in turn; then \<^verbatim>\<open>last_gc\<close> is set.
\<close>

definition expired_rows :: "datetime \<Rightarrow> shard_row list \<Rightarrow> shard_row list" where
  "expired_rows now rows =
     filter (\<lambda>row. case expires_at row of None \<Rightarrow> False | Some e \<Rightarrow> e < now) rows"

fun gc_loop :: "datetime \<Rightarrow> shard_row list \<Rightarrow> storage_manager \<Rightarrow> nat \<Rightarrow> nat \<times> storage_manager" where
  "gc_loop now [] self removed_count = (removed_count, self)"
| "gc_loop now (row # expired) self removed_count =
     (case delete_shard now self (file_hash row) (shard_index row) of
        (True, self') \<Rightarrow> gc_loop now expired self' (removed_count + 1)
      | (False, self') \<Rightarrow> gc_loop now expired self' removed_count)"

definition garbage_collect :: "datetime \<Rightarrow> storage_manager \<Rightarrow> nat \<times> storage_manager" where
  "garbage_collect now self =
     (case gc_loop now (expired_rows now (shards_table self)) self 0 of
        (removed_count, self') \<Rightarrow>
          (removed_count, self'\<lparr>stats := (stats self')\<lparr>last_gc := Some now\<rparr>\<rparr>))"

subsection \<open>A concrete store\<close>

text \<open>
  For the concrete runs the digest is a stand-in: two hexadecimal digits of the sum of the
  bytes. The store has a quota of 10 bytes.
\<close>

definition hex_digit :: "nat \<Rightarrow> char" where
  "hex_digit d = ''0123456789abcdef'' ! (d mod 16)"

definition sum_hex :: "bytes \<Rightarrow> string" where
  "sum_hex data = (let s = sum_list (map unat data) mod 256 in [hex_digit (s div 16), hex_digit s])"

definition empty_store :: storage_manager where
  "empty_store =
     \<lparr>max_storage_bytes = 10, shards_dir = [], shards_table = [],
      stats = \<lparr>total_shards = 0, total_bytes = 0, last_gc = None, updated_at = 0\<rparr>\<rparr>"

definition example_store :: storage_manager where
  "example_store = snd (store_shard sum_hex 1 empty_store ''f1'' 0 [1, 2, 3, 4] None (Some 5))"







section \<open>p2p/erasure.py: ErasureCoder\<close>

text \<open>
  \<^verbatim>\<open>ErasureCoder.__init__\<close> stores \<open>required_shards\<close> (k), \<open>total_shards\<close> (n) and the two
  objects of the external zfec library, \<^verbatim>\<open>zfec.Encoder(k, n)\<close> and \<^verbatim>\<open>zfec.Decoder(k, n)\<close>.
  The library is not part of the repository: its two entry points are fields of the record,
  \<open>fec self chunks\<close> for \<^verbatim>\<open>self.fec.encode(chunks)\<close> and \<open>decoder self blocks sharenums\<close> for
  \<^verbatim>\<open>self.decoder.decode(blocks, sharenums)\<close>; both may raise.
\<close>

record erasure_coder =
  required_shards :: nat
  total_shards :: nat
  fec :: "bytes list \<Rightarrow> py_error + bytes list"
  decoder :: "bytes list \<Rightarrow> nat list \<Rightarrow> py_error + bytes list"

text \<open>
  \<^verbatim>\<open>padding_length = (k - (len(data) % k)) % k\<close>. For \<open>0 < k\<close> the remainder is below \<open>k\<close>,
  so the subtraction on \<open>nat\<close> is the one on Python's integers; \<open>k = 0\<close> raises in \<open>encode\<close>.
\<close>

definition padding_length :: "erasure_coder \<Rightarrow> bytes \<Rightarrow> nat" where
  "padding_length self data =
     (required_shards self - (length data mod required_shards self)) mod required_shards self"

definition padded_data :: "erasure_coder \<Rightarrow> bytes \<Rightarrow> bytes" where
  "padded_data self data = data @ replicate (padding_length self data) 0"

definition chunk_size :: "erasure_coder \<Rightarrow> bytes \<Rightarrow> nat" where
  "chunk_size self data = length (padded_data self data) div required_shards self"

text \<open>\<^verbatim>\<open>[padded_data[i * chunk_size:(i + 1) * chunk_size] for i in range(k)]\<close>\<close>

definition chunks :: "erasure_coder \<Rightarrow> bytes \<Rightarrow> bytes list" where
  "chunks self data =
     map (\<lambda>i. slice (i * chunk_size self data) ((i + 1) * chunk_size self data) (padded_data self data))
       [0..<required_shards self]"

definition encode :: "erasure_coder \<Rightarrow> bytes \<Rightarrow> py_error + bytes list" where
  "encode self data =
     (if required_shards self = 0 then Inl ZeroDivisionError
      else fec self (chunks self data))"

text \<open>
  \<^verbatim>\<open>valid_shards = [(i, shard) for i, shard in shards if shard is not None]\<close>:
  an absent shard is \<open>None\<close>.
\<close>

definition valid_shards :: "(nat \<times> bytes option) list \<Rightarrow> (nat \<times> bytes) list" where
  "valid_shards shards =
     List.map_filter (\<lambda>(i, shard). case shard of None \<Rightarrow> None | Some b \<Rightarrow> Some (i, b)) shards"

text \<open>
  \<open>decode\<close> raises \<^verbatim>\<open>ValueError("Need at least k shards, got m")\<close> on fewer than k valid shards.
  \<^verbatim>\<open>indices, shard_data = zip(*valid_shards)\<close> cannot unpack an empty list (reachable only for
  \<open>k = 0\<close>). Every valid shard is handed to the zfec decoder, none is dropped; the decoded
  chunks are joined and the trailing zero bytes stripped.
\<close>

definition decode :: "erasure_coder \<Rightarrow> (nat \<times> bytes option) list \<Rightarrow> py_error + bytes" where
  "decode self shards =
     (let valid = valid_shards shards in
      if length valid < required_shards self
      then Inl (ValueError_NeedShards (required_shards self) (length valid))
      else if valid = [] then Inl ValueError_Unpack
      else (case decoder self (map snd valid) (map fst valid) of
              Inl e \<Rightarrow> Inl e
            | Inr decoded_chunks \<Rightarrow> Inr (rstrip_zero (concat decoded_chunks))))"

subsection \<open>What the code relies on from the codec\<close>

text \<open>
  The encoder is given k blocks of one length (\<open>chunks_ok\<close>). A systematic encoder returns n
  shards of that length, the first k being the blocks themselves. The decoder is given k blocks
  together with their k distinct share numbers below n (\<open>share_nums_ok\<close>) and returns the k
  original blocks in order.
\<close>

definition chunks_ok :: "nat \<Rightarrow> bytes list \<Rightarrow> bool" where
  "chunks_ok k cs \<longleftrightarrow> length cs = k \<and> (\<forall>c \<in> set cs. length c = length (hd cs))"

definition systematic_encoder :: "erasure_coder \<Rightarrow> bool" where
  "systematic_encoder self \<longleftrightarrow>
     (\<forall>cs. chunks_ok (required_shards self) cs \<longrightarrow>
        (\<exists>ss. fec self cs = Inr ss \<and> length ss = total_shards self
            \<and> take (required_shards self) ss = cs
            \<and> (\<forall>s \<in> set ss. length s = length (hd cs))))"

definition share_nums_ok :: "erasure_coder \<Rightarrow> nat list \<Rightarrow> bool" where
  "share_nums_ok self nums \<longleftrightarrow>
     length nums = required_shards self \<and> distinct nums \<and> (\<forall>i \<in> set nums. i < total_shards self)"

definition any_k_decoder :: "erasure_coder \<Rightarrow> bool" where
  "any_k_decoder self \<longleftrightarrow>
     (\<forall>cs ss nums. chunks_ok (required_shards self) cs \<and> fec self cs = Inr ss \<and> share_nums_ok self nums
        \<longrightarrow> decoder self (map (\<lambda>i. ss ! i) nums) nums = Inr cs)"

subsection \<open>A concrete (2, 3) coder\<close>

text \<open>
  The single-parity code: two blocks and their bytewise exclusive or. Any two of the three
  shares give the two blocks back. Like zfec's decoder, which takes exactly k blocks and k share
  numbers, \<open>parity_decode\<close> raises on any other number of blocks.
\<close>

definition xor_bytes :: "bytes \<Rightarrow> bytes \<Rightarrow> bytes" where
  "xor_bytes a b = map2 (\<lambda>x y. xor x y) a b"

definition parity_encode :: "bytes list \<Rightarrow> py_error + bytes list" where
  "parity_encode cs =
     (case cs of
        [a, b] \<Rightarrow> if length a = length b then Inr [a, b, xor_bytes a b] else Inl FecError
      | _ \<Rightarrow> Inl FecError)"

definition parity_decode :: "bytes list \<Rightarrow> nat list \<Rightarrow> py_error + bytes list" where
  "parity_decode blocks sharenums =
     (case (blocks, sharenums) of
        ([x, y], [i, j]) \<Rightarrow>
          if i = 0 \<and> j = 1 then Inr [x, y]
          else if i = 1 \<and> j = 0 then Inr [y, x]
          else if i = 0 \<and> j = 2 then Inr [x, xor_bytes x y]
          else if i = 2 \<and> j = 0 then Inr [y, xor_bytes y x]
          else if i = 1 \<and> j = 2 then Inr [xor_bytes x y, x]
          else if i = 2 \<and> j = 1 then Inr [xor_bytes y x, y]
          else Inl FecError
      | _ \<Rightarrow> Inl FecError)"

definition parity_coder :: erasure_coder where
  "parity_coder = \<lparr>required_shards = 2, total_shards = 3, fec = parity_encode, decoder = parity_decode\<rparr>"

section \<open>shared/crypto.py: Merkle root\<close>

text \<open>
  \<^verbatim>\<open>base64.b64encode\<close> with the standard alphabet of RFC 4648 (\<open>+\<close> and \<open>/\<close> for 62 and 63,
  \<open>=\<close> padding); \<^verbatim>\<open>.decode()\<close> of the ASCII result is the same characters as a \<open>string\<close>.
\<close>

definition b64_alphabet :: string where
  "b64_alphabet = ''ABCDEFGHIJKLMNOPQRSTUVWXYZabcdefghijklmnopqrstuvwxyz0123456789+/''"

definition b64_char :: "nat \<Rightarrow> char" where
  "b64_char n = b64_alphabet ! (n mod 64)"

fun b64encode :: "bytes \<Rightarrow> string" where
  "b64encode (a # b # c # rest) =
     (let n = unat a * 65536 + unat b * 256 + unat c
      in [b64_char (n div 262144), b64_char (n div 4096), b64_char (n div 64), b64_char n]
         @ b64encode rest)"
| "b64encode [a, b] =
     (let n = unat a * 65536 + unat b * 256
      in [b64_char (n div 262144), b64_char (n div 4096), b64_char (n div 64), CHR ''=''])"
| "b64encode [a] =
     (let n = unat a * 65536
      in [b64_char (n div 262144), b64_char (n div 4096), CHR ''='', CHR ''=''])"
| "b64encode [] = []"

text \<open>
  \<^verbatim>\<open>hashlib.sha256(x).digest()\<close> is the parameter \<open>sha256\<close> of every function that hashes.

  One pass of the \<^verbatim>\<open>for i in range(0, len(leaf_hashes), 2)\<close> loop: \<open>left\<close> is element \<open>i\<close>,
  \<open>right\<close> is element \<open>i + 1\<close> when it exists and \<open>left\<close> otherwise. Every index read is
  below the length.
\<close>

definition range_step2 :: "nat \<Rightarrow> nat list" where
  "range_step2 n = map (\<lambda>j. 2 * j) [0..<(n + 1) div 2]"

definition new_level :: "(bytes \<Rightarrow> bytes) \<Rightarrow> bytes list \<Rightarrow> bytes list" where
  "new_level sha256 leaf_hashes =
     map (\<lambda>i. let left = leaf_hashes ! i;
                   right = (if i + 1 < length leaf_hashes then leaf_hashes ! (i + 1) else left)
               in sha256 (left @ right))
       (range_step2 (length leaf_hashes))"

text \<open>\<^verbatim>\<open>while len(leaf_hashes) > 1: ... leaf_hashes = new_level\<close>\<close>

function merkle_loop :: "(bytes \<Rightarrow> bytes) \<Rightarrow> bytes list \<Rightarrow> bytes list" where
  "merkle_loop sha256 leaf_hashes =
     (if length leaf_hashes > 1 then merkle_loop sha256 (new_level sha256 leaf_hashes)
      else leaf_hashes)"
  by pat_completeness auto
termination
  by (relation "measure (\<lambda>(sha256, leaf_hashes). length leaf_hashes)")
     (auto simp: new_level_def range_step2_def)

declare merkle_loop.simps [simp del]

text \<open>\<^verbatim>\<open>leaf_hashes[0]\<close> after the loop raises IndexError on an empty list.\<close>

definition compute_merkle_root :: "(bytes \<Rightarrow> bytes) \<Rightarrow> bytes list \<Rightarrow> py_error + string" where
  "compute_merkle_root sha256 data_chunks =
     (if data_chunks = [] then Inr ''''
      else (case merkle_loop sha256 (map sha256 data_chunks) of
              [] \<Rightarrow> Inl IndexError
            | root_hash # _ \<Rightarrow> Inr (b64encode root_hash)))"

subsection \<open>The Merkle root in the spec's words\<close>

text \<open>
  Leaves are the SHA-256 digests of the chunks; a level is reduced by hashing the concatenation
  of each pair of neighbours, the last node of a level of odd size being paired with a copy of
  itself; the root is the node left when one node remains.
\<close>

fun pair_up :: "(bytes \<Rightarrow> bytes) \<Rightarrow> bytes list \<Rightarrow> bytes list" where
  "pair_up sha256 (l # r # rest) = sha256 (l @ r) # pair_up sha256 rest"
| "pair_up sha256 [l] = [sha256 (l @ l)]"
| "pair_up sha256 [] = []"

function spec_merkle_root :: "(bytes \<Rightarrow> bytes) \<Rightarrow> bytes \<Rightarrow> bytes list \<Rightarrow> bytes" where
  "spec_merkle_root sha256 h hs =
     (case pair_up sha256 (h # hs) of
        h' # hs' \<Rightarrow> if hs = [] then h else spec_merkle_root sha256 h' hs'
      | [] \<Rightarrow> h)"
  by pat_completeness auto
termination
proof (relation "measure (\<lambda>(sha256, h, hs). length hs)")
  show "wf (measure (\<lambda>(sha256, h, hs). length hs))" by simp
next
  fix sha256 :: "bytes \<Rightarrow> bytes" and h hs h' hs'
  assume p: "pair_up sha256 (h # hs) = h' # hs'" and ne: "hs \<noteq> []"
  have "length (pair_up sha256 xs) = (length xs + 1) div 2" for xs
    by (induction sha256 xs rule: pair_up.induct) simp_all
  from this[of "h # hs"] p have "Suc (length hs') = (length hs + 2) div 2" by simp
  with ne show "((sha256, h', hs'), (sha256, h, hs)) \<in> measure (\<lambda>(sha256, h, hs). length hs)"
    by (cases hs) auto
qed

declare spec_merkle_root.simps [simp del]

section \<open>p2p/transfer.py: transfer statistics\<close>

text \<open>
  The counters of \<^verbatim>\<open>self.transfer_stats\<close>. Python's \<^verbatim>\<open>/\<close> on two ints raises
  ZeroDivisionError on a zero divisor and otherwise gives the float nearest to the quotient; the
  model keeps the exact quotient as a rational.
\<close>

record transfer_stats =
  uploads :: int
  downloads :: int
  bytes_sent :: int
  bytes_received :: int
  failures :: int

definition py_truediv :: "int \<Rightarrow> int \<Rightarrow> py_error + rat" where
  "py_truediv a b = (if b = 0 then Inl ZeroDivisionError else Inr (of_int a / of_int b))"

text \<open>The returned dict is the counters together with the entry \<^verbatim>\<open>'success_rate'\<close>.\<close>

definition get_transfer_stats :: "transfer_stats \<Rightarrow> py_error + (transfer_stats \<times> rat)" where
  "get_transfer_stats self =
     (if uploads self + downloads self + failures self > 0
      then (case py_truediv (uploads self + downloads self)
                            (uploads self + downloads self + failures self) of
              Inl e \<Rightarrow> Inl e
            | Inr success_rate \<Rightarrow> Inr (self, success_rate))
      else Inr (self, 0))"

section \<open>coordinator/server.py: register\_file\<close>

text \<open>
  \<open>file_metadata\<close> is the request body (\<^verbatim>\<open>shared/schemas.py\<close>, FileMetadata) and
  \<open>file_metadata_db\<close> a row of the table \<^verbatim>\<open>files\<close> (\<^verbatim>\<open>coordinator/models.py\<close>,
  FileMetadataDB; its column \<^verbatim>\<open>id\<close> is the field \<open>row_id\<close>). \<^verbatim>\<open>shard_locations\<close> is the dict from shard
  index to the list of peer ids.
\<close>

record file_metadata =
  file_hash :: string
  original_name :: string
  total_size :: int
  encrypted_size :: int
  shards_total :: int
  shards_required :: int
  shard_hashes :: "string list"
  shard_locations :: "int \<rightharpoonup> string list"
  encryption_scheme :: string
  created_at :: datetime
  expires_at :: "datetime option"

record file_metadata_db =
  row_id :: string
  file_hash :: string
  owner_id :: string
  original_name :: string
  total_size :: int
  encrypted_size :: int
  shards_total :: int
  shards_required :: int
  shard_hashes :: "string list"
  shard_locations :: "int \<rightharpoonup> string list"
  encryption_scheme :: string
  created_at :: datetime
  expires_at :: "datetime option"
  is_deleted :: bool

text \<open>
  \<^verbatim>\<open>db.query(FileMetadataDB).filter(FileMetadataDB.file_hash == h).first()\<close> is the first row
  with that hash; assigning to an attribute of the row it returns updates that row in place.
\<close>

definition query_first :: "file_metadata_db list \<Rightarrow> string \<Rightarrow> file_metadata_db option" where
  "query_first db h = find (\<lambda>row. file_metadata_db.file_hash row = h) db"

fun update_first :: "('a \<Rightarrow> bool) \<Rightarrow> ('a \<Rightarrow> 'a) \<Rightarrow> 'a list \<Rightarrow> 'a list" where
  "update_first P f [] = []"
| "update_first P f (x # xs) = (if P x then f x # xs else x # update_first P f xs)"

text \<open>
  The handler, on the table \<open>db\<close>. \<open>new_id\<close> and \<open>now\<close> are the column defaults
  (\<^verbatim>\<open>uuid.uuid4()\<close>, \<^verbatim>\<open>datetime.now\<close>) a new row takes. The result is the table after
  \<^verbatim>\<open>db.commit()\<close> and the fields \<^verbatim>\<open>status\<close>, \<^verbatim>\<open>file_hash\<close>, \<^verbatim>\<open>message\<close> of the response. The
  \<^verbatim>\<open>except\<close> branch (rollback, HTTP 500) is taken only when the database itself fails.
\<close>

definition register_file ::
  "file_metadata_db list \<Rightarrow> string \<Rightarrow> datetime \<Rightarrow> file_metadata
     \<Rightarrow> file_metadata_db list \<times> (string \<times> string \<times> string)" where
  "register_file db new_id now metadata =
     (let db' =
        (case query_first db (file_metadata.file_hash metadata) of
           Some existing \<Rightarrow>
             update_first (\<lambda>row. file_metadata_db.file_hash row = file_metadata.file_hash metadata)
               (\<lambda>existing. existing\<lparr>file_metadata_db.shard_locations :=
                                        file_metadata.shard_locations metadata\<rparr>)
               db
         | None \<Rightarrow>
             db @ [\<lparr>row_id = new_id,
                    file_hash = file_metadata.file_hash metadata,
                    owner_id = ''anonymous'',
                    original_name = file_metadata.original_name metadata,
                    total_size = file_metadata.total_size metadata,
                    encrypted_size = file_metadata.encrypted_size metadata,
                    shards_total = file_metadata.shards_total metadata,
                    shards_required = file_metadata.shards_required metadata,
                    shard_hashes = file_metadata.shard_hashes metadata,
                    shard_locations = file_metadata.shard_locations metadata,
                    encryption_scheme = file_metadata.encryption_scheme metadata,
                    created_at = now,
                    expires_at = file_metadata.expires_at metadata,
                    is_deleted = False\<rparr>])
      in (db', (''success'', file_metadata.file_hash metadata, ''File metadata registered'')))"

text \<open>The pair (shard index, peer id) is present in a \<^verbatim>\<open>shard_locations\<close> dict.\<close>

definition has_location :: "(int \<rightharpoonup> string list) \<Rightarrow> int \<Rightarrow> string \<Rightarrow> bool" where
  "has_location locations idx peer =
     (case locations idx of None \<Rightarrow> False | Some peers \<Rightarrow> peer \<in> set peers)"

text \<open>The locations the coordinator holds for a file hash (none for an unknown hash).\<close>

definition stored_locations :: "file_metadata_db list \<Rightarrow> string \<Rightarrow> (int \<rightharpoonup> string list)" where
  "stored_locations db h =
     (case query_first db h of None \<Rightarrow> Map.empty
      | Some row \<Rightarrow> file_metadata_db.shard_locations row)"

text \<open>A manifest with two shards, first placed on peer A, then re-registered with peer B.\<close>

definition manifest_on :: "string \<Rightarrow> file_metadata" where
  "manifest_on peer =
     \<lparr>file_metadata.file_hash = ''h1'', file_metadata.original_name = ''a.txt'',
      file_metadata.total_size = 3, file_metadata.encrypted_size = 19,
      file_metadata.shards_total = 2, file_metadata.shards_required = 1,
      file_metadata.shard_hashes = [''s0'', ''s1''],
      file_metadata.shard_locations = [0 \<mapsto> [peer], 1 \<mapsto> [peer]],
      file_metadata.encryption_scheme = ''AES-256-GCM'', file_metadata.created_at = 0,
      file_metadata.expires_at = None\<rparr>"

section \<open>p2p/node.py: node identity\<close>

text \<open>
  \<^verbatim>\<open>bytes.decode()\<close> of the ASCII text of a PEM key: the same characters as a \<open>string\<close>.
\<close>

definition py_decode :: "bytes \<Rightarrow> string" where
  "py_decode b = map (\<lambda>x. char_of (unat x)) b"

text \<open>The three fields of \<^verbatim>\<open>NodeState\<close> that \<^verbatim>\<open>_load_or_create_identity\<close> assigns.\<close>

record node_state =
  peer_id :: string
  public_key :: string
  private_key :: string

text \<open>
  \<^verbatim>\<open>peer_id_hash = hashlib.sha256(public_key).digest()\<close>,
  \<^verbatim>\<open>base64.b64encode(peer_id_hash).decode()[:16]\<close>.
\<close>

definition peer_id_from_public_key :: "(bytes \<Rightarrow> bytes) \<Rightarrow> bytes \<Rightarrow> string" where
  "peer_id_from_public_key sha256 public_key_pem = take 16 (b64encode (sha256 public_key_pem))"

text \<open>
  \<open>identity_file\<close> is \<^verbatim>\<open>identity.json\<close>: \<open>None\<close> when the file does not exist (\<^verbatim>\<open>open\<close> raises
  FileNotFoundError), otherwise the JSON object in it. \<open>generated\<close> is the pair
  \<^verbatim>\<open>CryptoUtils.generate_key_pair()\<close> would return, (private PEM, public PEM). A key missing
  from the JSON object raises KeyError, which the method does not catch. The result is the new
  state and the file as the method leaves it.
\<close>

definition load_or_create_identity ::
  "(bytes \<Rightarrow> bytes) \<Rightarrow> bytes \<times> bytes \<Rightarrow> (string \<rightharpoonup> string) option \<Rightarrow> node_state
     \<Rightarrow> py_error + (node_state \<times> (string \<rightharpoonup> string) option)" where
  "load_or_create_identity sha256 generated identity_file state =
     (case identity_file of
        Some identity \<Rightarrow>
          (case identity ''peer_id'' of
             None \<Rightarrow> Inl (KeyError ''peer_id'')
           | Some pid \<Rightarrow>
          (case identity ''public_key'' of
             None \<Rightarrow> Inl (KeyError ''public_key'')
           | Some pub \<Rightarrow>
          (case identity ''private_key'' of
             None \<Rightarrow> Inl (KeyError ''private_key'')
           | Some priv \<Rightarrow>
               Inr (state\<lparr>peer_id := pid, public_key := pub, private_key := priv\<rparr>,
                    Some identity))))
      | None \<Rightarrow>
          (let (private_key_pem, public_key_pem) = generated;
               state' = state\<lparr>private_key := py_decode private_key_pem,
                              public_key := py_decode public_key_pem,
                              peer_id := peer_id_from_public_key sha256 public_key_pem\<rparr>
           in Inr (state',
                   Some [''peer_id'' \<mapsto> peer_id state',
                         ''public_key'' \<mapsto> public_key state',
                         ''private_key'' \<mapsto> private_key state'])))"

text \<open>The alphabet of \<^verbatim>\<open>base64.urlsafe_b64encode\<close> (RFC 4648, section 5).\<close>

definition urlsafe_alphabet :: string where
  "urlsafe_alphabet = ''ABCDEFGHIJKLMNOPQRSTUVWXYZabcdefghijklmnopqrstuvwxyz0123456789-_''"

definition url_safe :: "string \<Rightarrow> bool" where
  "url_safe s \<longleftrightarrow> (\<forall>c \<in> set s. c \<in> set urlsafe_alphabet)"

text \<open>
  A concrete identity: the PEM of the P-256 public key \<open>2 \<cdot> G\<close> and, for \<open>sha256\<close>, the
  function that returns the SHA-256 digest of that PEM.
\<close>

definition example_public_key :: bytes where
  "example_public_key = map (\<lambda>c. of_nat (of_char c))
     (''-----BEGIN PUBLIC KEY-----'' @ [CHR 0x0A]
      @ ''MFkwEwYHKoZIzj0CAQYIKoZIzj0DAQcDQgAEfPJ7GI0DT36KUjgDBLUaw8CJaeJ3'' @ [CHR 0x0A]
      @ ''8hs1pgtI/EdmmXgHd1UQ247QQCk9msafdDDbun2t5jzpgimeBLedInhz0Q=='' @ [CHR 0x0A]
      @ ''-----END PUBLIC KEY-----'' @ [CHR 0x0A])"

definition example_private_key :: bytes where
  "example_private_key = map (\<lambda>c. of_nat (of_char c)) ''(private key PEM)''"

definition example_sha256 :: "bytes \<Rightarrow> bytes" where
  "example_sha256 x =
     [0x42, 0x9B, 0xCE, 0x97, 0xFA, 0x9F, 0x03, 0xF8, 0x84, 0x6C, 0x73, 0x1A, 0x0B,
      0x3F, 0x4A, 0xCD, 0xD8, 0x22, 0xD6, 0xBD, 0xD4, 0xE8, 0xF3, 0x54, 0x1C, 0xA9,
      0xB6, 0x6C, 0xB3, 0x85, 0x9F, 0x68]"

section \<open>shared/crypto.py and p2p/encryption.py: decryption\<close>

text \<open>
  The primitives of the \<^verbatim>\<open>cryptography\<close> package are parameters: \<open>pbkdf2 password salt\<close> is
  \<^verbatim>\<open>kdf.derive(password)\<close> of PBKDF2-HMAC-SHA256 with that salt, and
  \<open>aesgcm_decrypt key nonce ciphertext\<close> is \<^verbatim>\<open>AESGCM(key).decrypt(nonce, ciphertext, None)\<close>,
  which raises (InvalidTag when the tag does not verify) or returns the plaintext.
  \<open>urandom16\<close> is the result of \<^verbatim>\<open>os.urandom(16)\<close>. \<^verbatim>\<open>str.encode()\<close> of an ASCII password is
  \<open>py_encode\<close>.
\<close>

definition py_encode :: "string \<Rightarrow> bytes" where
  "py_encode s = map (\<lambda>c. of_nat (of_char c)) s"

definition derive_key ::
  "(bytes \<Rightarrow> bytes \<Rightarrow> bytes) \<Rightarrow> bytes \<Rightarrow> string \<Rightarrow> bytes option \<Rightarrow> bytes \<times> bytes" where
  "derive_key pbkdf2 urandom16 password salt =
     (let salt' = (case salt of None \<Rightarrow> urandom16 | Some s \<Rightarrow> s)
      in (pbkdf2 (py_encode password) salt', salt'))"

text \<open>\<open>encrypted_obj\<close> is a dict; a missing key raises KeyError.\<close>

definition decrypt_data ::
  "(bytes \<Rightarrow> bytes \<Rightarrow> bytes \<Rightarrow> py_error + bytes) \<Rightarrow> (string \<rightharpoonup> bytes) \<Rightarrow> bytes
     \<Rightarrow> py_error + bytes" where
  "decrypt_data aesgcm_decrypt encrypted_obj key =
     (case encrypted_obj ''ciphertext'' of
        None \<Rightarrow> Inl (KeyError ''ciphertext'')
      | Some ciphertext \<Rightarrow>
     (case encrypted_obj ''nonce'' of
        None \<Rightarrow> Inl (KeyError ''nonce'')
      | Some nonce \<Rightarrow> aesgcm_decrypt key nonce ciphertext))"

text \<open>
  \<open>decrypt_file\<close>: everything runs inside \<^verbatim>\<open>try\<close>, and every exception, whatever its kind, is
  replaced by \<^verbatim>\<open>ValueError("Decryption failed - incorrect password or corrupted data")\<close>. A
  password that is \<^verbatim>\<open>None\<close> has no \<^verbatim>\<open>encode\<close> (AttributeError), a metadata dict without
  \<^verbatim>\<open>'salt'\<close> or \<^verbatim>\<open>'nonce'\<close> raises KeyError.
\<close>

definition decrypt_file ::
  "(bytes \<Rightarrow> bytes \<Rightarrow> bytes) \<Rightarrow> (bytes \<Rightarrow> bytes \<Rightarrow> bytes \<Rightarrow> py_error + bytes) \<Rightarrow> bytes
     \<Rightarrow> bytes \<Rightarrow> string option \<Rightarrow> (string \<rightharpoonup> bytes) \<Rightarrow> py_error + bytes" where
  "decrypt_file pbkdf2 aesgcm_decrypt urandom16 encrypted_data password metadata =
     (case
        (case metadata ''salt'' of
           None \<Rightarrow> Inl (KeyError ''salt'')
         | Some salt \<Rightarrow>
        (case password of
           None \<Rightarrow> Inl AttributeError
         | Some pw \<Rightarrow>
        (case metadata ''nonce'' of
           None \<Rightarrow> Inl (KeyError ''nonce'')
         | Some nonce \<Rightarrow>
             decrypt_data aesgcm_decrypt [''ciphertext'' \<mapsto> encrypted_data, ''nonce'' \<mapsto> nonce]
               (fst (derive_key pbkdf2 urandom16 pw (Some salt))))))
      of Inl e \<Rightarrow> Inl ValueError_DecryptionFailed
       | Inr decrypted_data \<Rightarrow> Inr decrypted_data)"

text \<open>
  A call of \<open>decrypt_file\<close>. The method has three required positional parameters after
  \<^verbatim>\<open>self\<close>: \<^verbatim>\<open>encrypted_data\<close>, \<^verbatim>\<open>password\<close>, \<^verbatim>\<open>metadata\<close>. Python binds the arguments before
  the body runs, so a call that supplies no \<^verbatim>\<open>metadata\<close> (\<open>None\<close> here) raises TypeError
  outside the \<^verbatim>\<open>try\<close> of the method.
\<close>

definition call_decrypt_file ::
  "(bytes \<Rightarrow> bytes \<Rightarrow> bytes) \<Rightarrow> (bytes \<Rightarrow> bytes \<Rightarrow> bytes \<Rightarrow> py_error + bytes) \<Rightarrow> bytes
     \<Rightarrow> bytes \<Rightarrow> string option \<Rightarrow> (string \<rightharpoonup> bytes) option \<Rightarrow> py_error + bytes" where
  "call_decrypt_file pbkdf2 aesgcm_decrypt urandom16 encrypted_data password supplied_metadata =
     (case supplied_metadata of
        None \<Rightarrow> Inl (TypeError_MissingArgument ''metadata'')
      | Some metadata \<Rightarrow>
          decrypt_file pbkdf2 aesgcm_decrypt urandom16 encrypted_data password metadata)"

section \<open>p2p/node.py: retrieve\_file\<close>

text \<open>
  Attribute lookup on an object: the attributes are those its \<^verbatim>\<open>__init__\<close> assigns and the
  methods its class defines (the classes here have no base class but \<^verbatim>\<open>object\<close>); any other
  name raises AttributeError. \<open>value\<close> is what the attribute would hold.
\<close>

definition getattr :: "string list \<Rightarrow> string \<Rightarrow> 'a \<Rightarrow> py_error + 'a" where
  "getattr attributes name value =
     (if name \<in> set attributes then Inr value else Inl AttributeError)"

text \<open>The attributes of a \<^verbatim>\<open>P2PNode\<close> (\<^verbatim>\<open>node.py\<close>) and of a \<^verbatim>\<open>TransferService\<close> (\<^verbatim>\<open>transfer.py\<close>).\<close>

definition P2PNode_attributes :: "string list" where
  "P2PNode_attributes =
     [''coordinator_url'', ''state'', ''session'', ''encryptor'', ''erasure_coder'',
      ''shard_manager'', ''storage_manager'', ''discovery'', ''transfer'', ''audit'',
      ''__init__'', ''_load_or_create_identity'', ''start'', ''_start_http_server'',
      ''_register_with_coordinator'', ''store_file'', ''retrieve_file'', ''_distribute_shards'',
      ''_collect_shards'', ''_heartbeat_task'', ''_discovery_task'', ''_audit_task'',
      ''_get_local_ip'']"

definition TransferService_attributes :: "string list" where
  "TransferService_attributes =
     [''max_retries'', ''timeout'', ''transfer_stats'',
      ''__init__'', ''upload_shard'', ''download_shard'', ''batch_upload_shards'',
      ''batch_download_shards'', ''verify_shard_integrity'', ''get_transfer_stats'',
      ''reset_stats'']"

text \<open>
  \<open>_collect_shards\<close>, inner loop: the peers of one shard are tried in order. Everything
  inside \<^verbatim>\<open>try\<close> that raises, the lookup of \<^verbatim>\<open>self.transfer.request_shard\<close> included, is logged
  and the next peer is tried; \<^verbatim>\<open>metadata.shard_hashes[shard_index]\<close> raises IndexError beyond the
  list. \<open>request_shard\<close> is what the method would return if \<^verbatim>\<open>TransferService\<close> had it.
  \<^verbatim>\<open>compute_shard_hash\<close> is the Base64 text of the SHA-256 digest.
\<close>

fun try_peers ::
  "(bytes \<Rightarrow> bytes) \<Rightarrow> (string \<Rightarrow> string \<Rightarrow> nat \<Rightarrow> py_error + bytes) \<Rightarrow> file_metadata \<Rightarrow> nat
     \<Rightarrow> string list \<Rightarrow> bytes option" where
  "try_peers sha256 request_shard metadata idx [] = None"
| "try_peers sha256 request_shard metadata idx (peer # peers) =
     (case (case getattr TransferService_attributes ''request_shard'' request_shard of
              Inl e \<Rightarrow> Inl e
            | Inr request \<Rightarrow> request peer (file_metadata.file_hash metadata) idx) of
        Inl e \<Rightarrow> try_peers sha256 request_shard metadata idx peers
      | Inr shard_data \<Rightarrow>
          if idx < length (file_metadata.shard_hashes metadata)
             \<and> b64encode (sha256 shard_data) = file_metadata.shard_hashes metadata ! idx
          then Some shard_data
          else try_peers sha256 request_shard metadata idx peers)"

text \<open>
  Outer loop over \<^verbatim>\<open>range(metadata.shards_total)\<close>, left as soon as
  \<^verbatim>\<open>shards_required\<close> shards are in hand; \<^verbatim>\<open>shard_locations.get(shard_index, [])\<close>.
\<close>

fun collect_loop ::
  "(bytes \<Rightarrow> bytes) \<Rightarrow> (string \<Rightarrow> string \<Rightarrow> nat \<Rightarrow> py_error + bytes) \<Rightarrow> file_metadata
     \<Rightarrow> nat list \<Rightarrow> (nat \<times> bytes option) list \<Rightarrow> (nat \<times> bytes option) list" where
  "collect_loop sha256 request_shard metadata [] shards = shards"
| "collect_loop sha256 request_shard metadata (idx # rest) shards =
     (if file_metadata.shards_required metadata \<le> int (length shards) then shards
      else
        (case try_peers sha256 request_shard metadata idx
                (case file_metadata.shard_locations metadata (int idx) of
                   None \<Rightarrow> [] | Some peers \<Rightarrow> peers) of
           None \<Rightarrow> collect_loop sha256 request_shard metadata rest shards
         | Some shard_data \<Rightarrow>
             collect_loop sha256 request_shard metadata rest (shards @ [(idx, Some shard_data)])))"

text \<open>
  \<^verbatim>\<open>raise ValueError("Could not collect enough shards. Need k, got m")\<close> when fewer than
  \<^verbatim>\<open>shards_required\<close> were collected.
\<close>

definition collect_shards ::
  "(bytes \<Rightarrow> bytes) \<Rightarrow> (string \<Rightarrow> string \<Rightarrow> nat \<Rightarrow> py_error + bytes) \<Rightarrow> file_metadata
     \<Rightarrow> py_error + (nat \<times> bytes option) list" where
  "collect_shards sha256 request_shard metadata =
     (let shards = collect_loop sha256 request_shard metadata
                     [0..<nat (file_metadata.shards_total metadata)] []
      in if int (length shards) < file_metadata.shards_required metadata
         then Inl (ValueError_NotEnoughShards (file_metadata.shards_required metadata) (length shards))
         else Inr shards)"

text \<open>
  \<open>retrieve_file\<close>. Step 1 looks up \<^verbatim>\<open>self._get_file_metadata\<close>; \<open>get_file_metadata\<close> is what
  the method would return if \<^verbatim>\<open>P2PNode\<close> had it. Step 2 is \<open>collect_shards\<close>, step 3
  \<open>decode\<close>, and step 4 the call \<^verbatim>\<open>self.encryptor.decrypt_file(encrypted_data, password)\<close>, with
  two arguments. The \<^verbatim>\<open>except\<close> branch logs and raises the exception again.
\<close>

definition retrieve_file ::
  "(bytes \<Rightarrow> bytes \<Rightarrow> bytes) \<Rightarrow> (bytes \<Rightarrow> bytes \<Rightarrow> bytes \<Rightarrow> py_error + bytes) \<Rightarrow> bytes
     \<Rightarrow> (bytes \<Rightarrow> bytes) \<Rightarrow> erasure_coder \<Rightarrow> (string \<Rightarrow> py_error + file_metadata)
     \<Rightarrow> (string \<Rightarrow> string \<Rightarrow> nat \<Rightarrow> py_error + bytes)
     \<Rightarrow> string \<Rightarrow> string option \<Rightarrow> py_error + bytes" where
  "retrieve_file pbkdf2 aesgcm_decrypt urandom16 sha256 erasure_coder get_file_metadata
       request_shard fh password =
     (case getattr P2PNode_attributes ''_get_file_metadata'' get_file_metadata of
        Inl e \<Rightarrow> Inl e
      | Inr lookup \<Rightarrow>
     (case lookup fh of
        Inl e \<Rightarrow> Inl e
      | Inr metadata \<Rightarrow>
     (case collect_shards sha256 request_shard metadata of
        Inl e \<Rightarrow> Inl e
      | Inr shards \<Rightarrow>
     (case decode erasure_coder shards of
        Inl e \<Rightarrow> Inl e
      | Inr encrypted_data \<Rightarrow>
          call_decrypt_file pbkdf2 aesgcm_decrypt urandom16 encrypted_data password None))))"

section \<open>Properties of the erasure coder\<close>

lemma concat_chunks_aux:
  "concat (map (\<lambda>i. slice (i * c) ((i + 1) * c) xs) [0..<k]) = take (k * c) xs"
proof (induction k)
  case 0
  show ?case by simp
next
  case (Suc k)
  have "take (k * c) xs @ take c (drop (k * c) xs) = take (k * c + c) xs"
    by (simp add: take_add)
  with Suc show ?case by (simp add: slice_def add.commute)
qed

lemma pad_dvd:
  fixes k len :: nat
  assumes "0 < k"
  shows "k dvd len + (k - len mod k) mod k"
proof (cases "len mod k = 0")
  case True
  then show ?thesis by (simp add: mod_eq_0_iff_dvd)
next
  case False
  have lt: "len mod k < k" using assms by simp
  then have "(k - len mod k) mod k = k - len mod k" using False by simp
  moreover have "len + (k - len mod k) = (len div k + 1) * k"
  proof -
    have "len = len div k * k + len mod k" by simp
    then have "len + (k - len mod k) = len div k * k + (len mod k + (k - len mod k))" by linarith
    also have "len mod k + (k - len mod k) = k" using lt by simp
    finally show ?thesis by simp
  qed
  ultimately show ?thesis by simp
qed

lemma padded_length_dvd:
  "0 < required_shards self \<Longrightarrow> required_shards self dvd length (padded_data self data)"
  unfolding padded_data_def padding_length_def
  by (simp add: pad_dvd)

lemma concat_chunks:
  assumes "0 < required_shards self"
  shows "concat (chunks self data) = padded_data self data"
proof -
  from padded_length_dvd[OF assms, of data]
  have "required_shards self * chunk_size self data = length (padded_data self data)"
    by (simp add: chunk_size_def)
  then show ?thesis
    unfolding chunks_def concat_chunks_aux by simp
qed

lemma length_chunk:
  assumes "0 < required_shards self" "c \<in> set (chunks self data)"
  shows "length c = chunk_size self data"
proof -
  from padded_length_dvd[OF assms(1), of data]
  have eq: "required_shards self * chunk_size self data = length (padded_data self data)"
    by (simp add: chunk_size_def)
  from assms(2) obtain i where i: "i < required_shards self"
    and c: "c = slice (i * chunk_size self data) ((i + 1) * chunk_size self data) (padded_data self data)"
    by (auto simp: chunks_def)
  have "(i + 1) * chunk_size self data \<le> required_shards self * chunk_size self data"
    using i by (intro mult_le_mono1) simp
  then have "(i + 1) * chunk_size self data \<le> length (padded_data self data)"
    using eq by simp
  then show ?thesis
    by (simp add: c slice_def)
qed

lemma chunks_ok_chunks:
  assumes "0 < required_shards self"
  shows "chunks_ok (required_shards self) (chunks self data)"
proof -
  have len: "length (chunks self data) = required_shards self"
    by (simp add: chunks_def)
  then have "chunks self data \<noteq> []" using assms by auto
  then have "hd (chunks self data) \<in> set (chunks self data)" by simp
  then have "length (hd (chunks self data)) = chunk_size self data"
    using length_chunk[OF assms] by blast
  then show ?thesis
    unfolding chunks_ok_def using len length_chunk[OF assms] by auto
qed

lemma rstrip_zero_padded:
  assumes "data \<noteq> []" "last data \<noteq> 0"
  shows "rstrip_zero (data @ replicate n 0) = data"
proof -
  have "dropWhile (\<lambda>b. b = 0) (replicate n (0::byte) @ rev data) = rev data"
    using assms by (induction n) (auto simp: hd_rev dropWhile_eq_self_iff)
  then show ?thesis by (simp add: rstrip_zero_def)
qed

lemma valid_shards_present:
  "valid_shards (map (\<lambda>i. (i, Some (f i))) nums) = map (\<lambda>i. (i, f i)) nums"
  by (induction nums) (simp_all add: valid_shards_def List.map_filter_simps)

lemma length_valid_shards:
  "length (valid_shards shards) = length (filter (\<lambda>(i, shard). shard \<noteq> None) shards)"
  by (induction shards) (auto simp: valid_shards_def List.map_filter_simps split: option.splits)

subsection \<open>The parity coder meets the codec contract\<close>

lemma xor_bytes_cancel: "length a = length b \<Longrightarrow> xor_bytes a (xor_bytes a b) = b"
  unfolding xor_bytes_def
  by (induction a b rule: list_induct2) (simp_all add: xor.assoc[symmetric])

lemma xor_bytes_commute: "xor_bytes a b = xor_bytes b a"
  unfolding xor_bytes_def
proof (induction a arbitrary: b)
  case Nil
  show ?case by simp
next
  case (Cons x a)
  then show ?case by (cases b) (simp_all add: xor.commute)
qed

lemma length_xor_bytes: "length (xor_bytes a b) = min (length a) (length b)"
  by (simp add: xor_bytes_def)

lemma parity_systematic: "systematic_encoder parity_coder"
  unfolding systematic_encoder_def chunks_ok_def parity_coder_def parity_encode_def
  by (auto simp: length_xor_bytes split: list.splits)

lemma length2E:
  assumes "length xs = 2"
  obtains x y where "xs = [x, y]"
proof (cases xs)
  case Nil
  with assms show ?thesis by simp
next
  case (Cons x ys)
  with assms have "length ys = 1" by simp
  then obtain y where "ys = [y]" by (cases ys) simp_all
  with Cons that show ?thesis by simp
qed

lemma nums_cases:
  assumes "share_nums_ok parity_coder nums"
  shows "nums \<in> {[0,1],[1,0],[0,2],[2,0],[1,2],[2,1]}"
proof -
  from assms have l: "length nums = 2" and d: "distinct nums" and b: "\<forall>i\<in>set nums. i < 3"
    by (simp_all add: share_nums_ok_def parity_coder_def)
  from l obtain i j where n: "nums = [i, j]" by (rule length2E)
  with d b have "i < 3" "j < 3" "i \<noteq> j" by simp_all
  then have "(i = 0 \<or> i = 1 \<or> i = 2) \<and> (j = 0 \<or> j = 1 \<or> j = 2) \<and> i \<noteq> j" by arith
  then show ?thesis unfolding n by fastforce
qed

lemma parity_any_k: "any_k_decoder parity_coder"
  unfolding any_k_decoder_def
proof (intro allI impI, elim conjE)
  fix cs ss nums
  assume ok: "chunks_ok (required_shards parity_coder) cs"
    and e: "fec parity_coder cs = Inr ss"
    and n: "share_nums_ok parity_coder nums"
  from ok have "length cs = 2" by (simp add: chunks_ok_def parity_coder_def)
  then obtain a b where cs: "cs = [a, b]" by (rule length2E)
  with ok have len: "length a = length b"
    by (simp add: chunks_ok_def)
  from e have ss: "ss = [a, b, xor_bytes a b]"
    by (simp add: parity_coder_def parity_encode_def cs len)
  have 1: "xor_bytes a (xor_bytes a b) = b" by (rule xor_bytes_cancel[OF len])
  have 2: "xor_bytes (xor_bytes a b) b = a"
    using xor_bytes_cancel[of b a] len by (simp add: xor_bytes_commute)
  have 3: "xor_bytes b (xor_bytes a b) = a" using 2 by (simp add: xor_bytes_commute)
  have 4: "xor_bytes (xor_bytes a b) a = b" using 1 by (simp add: xor_bytes_commute)
  have "decoder parity_coder (map (\<lambda>i. ss ! i) ns) ns = Inr cs"
    if "ns \<in> {[0,1],[1,0],[0,2],[2,0],[1,2],[2,1]}" for ns
    using that by (elim insertE emptyE) (simp_all add: parity_coder_def parity_decode_def ss cs 1 2 3 4)
  with nums_cases[OF n] show "decoder parity_coder (map (\<lambda>i. ss ! i) nums) nums = Inr cs"
    by blast
qed

lemma parity_encode_123:
  "encode parity_coder [1, 2, 3] = Inr [[1, 2], [3, 0], [2, 2]]"
  by (simp add: encode_def chunks_def chunk_size_def padded_data_def padding_length_def
      slice_def parity_coder_def parity_encode_def xor_bytes_def upt_rec)

subsection \<open>Too few shards\<close>

text \<open>
  Claim C3. For every list of (index, shard) pairs in which fewer than \<open>required_shards\<close> entries
  carry a shard, \<open>decode\<close> raises the ValueError that reports the shortage (the spec's
  InsufficientShards) and therefore returns no reconstruction. The zfec decoder is not consulted:
  the statement holds for every \<open>decoder\<close> field.
\<close>

theorem decode_insufficient_shards:
  assumes "length (filter (\<lambda>(i, shard). shard \<noteq> None) shards) < required_shards self"
  shows "decode self shards =
           Inl (ValueError_NeedShards (required_shards self)
                  (length (filter (\<lambda>(i, shard). shard \<noteq> None) shards)))
         \<and> (\<forall>r. decode self shards \<noteq> Inr r)"
  using assms by (simp add: decode_def Let_def length_valid_shards)

theorem decode_insufficient_shards_witness:
  "length (filter (\<lambda>(i, shard). shard \<noteq> None) [(0::nat, Some [1, 2 :: byte]), (1, None)])
     < required_shards parity_coder
   \<and> decode parity_coder [(0, Some [1, 2]), (1, None)] = Inl (ValueError_NeedShards 2 1)"
proof -
  have h: "length (filter (\<lambda>(i, shard). shard \<noteq> None) [(0::nat, Some [1, 2 :: byte]), (1, None)])
             < required_shards parity_coder"
    by (simp add: parity_coder_def)
  from decode_insufficient_shards[OF h] h show ?thesis
    by (simp add: parity_coder_def)
qed

subsection \<open>Padding, chunking and the systematic shards\<close>

text \<open>
  Claim C4. For an \<open>ErasureCoder\<close> with k = \<open>required_shards\<close> > 0 and n = \<open>total_shards\<close> whose
  encoder is systematic, \<open>encode data\<close> succeeds for every byte string. The buffer it cuts is
  \<open>data\<close> followed by exactly \<open>(k - len(data) % k) % k\<close> zero bytes, its length is a multiple of
  k, the k chunks are consecutive slices of one length whose concatenation is that buffer, and the
  result has n shards of the chunk length, the first k of which are the chunks.
\<close>

theorem encode_pads_splits_systematic:
  assumes "0 < required_shards self" and "systematic_encoder self"
  shows "\<exists>shards. encode self data = Inr shards
           \<and> padded_data self data =
               data @ replicate ((required_shards self - length data mod required_shards self)
                                   mod required_shards self) 0
           \<and> required_shards self dvd length (padded_data self data)
           \<and> length (chunks self data) = required_shards self
           \<and> (\<forall>c \<in> set (chunks self data).
                  length c = length (padded_data self data) div required_shards self)
           \<and> concat (chunks self data) = padded_data self data
           \<and> length shards = total_shards self
           \<and> (\<forall>s \<in> set shards. length s = length (padded_data self data) div required_shards self)
           \<and> take (required_shards self) shards = chunks self data"
proof -
  have ok: "chunks_ok (required_shards self) (chunks self data)"
    by (rule chunks_ok_chunks[OF assms(1)])
  with assms(2) obtain shards where sh: "fec self (chunks self data) = Inr shards"
    and n: "length shards = total_shards self"
    and sys: "take (required_shards self) shards = chunks self data"
    and len: "\<forall>s \<in> set shards. length s = length (hd (chunks self data))"
    unfolding systematic_encoder_def by blast
  have "chunks self data \<noteq> []"
    using assms(1) by (auto simp: chunks_def)
  then have hd: "length (hd (chunks self data)) = chunk_size self data"
    using length_chunk[OF assms(1)] by simp
  have e: "encode self data = Inr shards"
    using assms(1) sh by (simp add: encode_def)
  have p: "padded_data self data =
      data @ replicate ((required_shards self - length data mod required_shards self)
                          mod required_shards self) 0"
    by (simp add: padded_data_def padding_length_def)
  have c: "\<forall>c \<in> set (chunks self data).
      length c = length (padded_data self data) div required_shards self"
    using length_chunk[OF assms(1)] by (simp add: chunk_size_def)
  have l: "length (chunks self data) = required_shards self"
    by (simp add: chunks_def)
  have s: "\<forall>s \<in> set shards. length s = length (padded_data self data) div required_shards self"
    using len hd by (simp add: chunk_size_def)
  from e p padded_length_dvd[OF assms(1)] l c concat_chunks[OF assms(1)] n s sys
  show ?thesis by blast
qed

theorem encode_pads_splits_systematic_witness:
  "0 < required_shards parity_coder \<and> systematic_encoder parity_coder
   \<and> encode parity_coder [1, 2, 3] = Inr [[1, 2], [3, 0], [2, 2]]
   \<and> padded_data parity_coder [1, 2, 3] = [1, 2, 3, 0]
   \<and> chunks parity_coder [1, 2, 3] = [[1, 2], [3, 0]]"
proof -
  have k: "0 < required_shards parity_coder" by (simp add: parity_coder_def)
  have p: "padded_data parity_coder [1, 2, 3] = [1, 2, 3, 0]"
    by (simp add: padded_data_def padding_length_def parity_coder_def)
  have c: "chunks parity_coder [1, 2, 3] = [[1, 2], [3, 0]]"
    by (simp add: chunks_def chunk_size_def padded_data_def padding_length_def slice_def
        parity_coder_def upt_rec)
  from encode_pads_splits_systematic[OF k parity_systematic, of "[1, 2, 3]"]
  obtain shards where "encode parity_coder [1, 2, 3] = Inr shards"
    and "take (required_shards parity_coder) shards = chunks parity_coder [1, 2, 3]"
    by blast
  then have "take 2 [[1, 2], [3, 0], [2, 2 :: byte]] = chunks parity_coder [1, 2, 3]"
    by (simp add: parity_encode_123) (simp add: parity_coder_def)
  with k parity_systematic parity_encode_123 p show ?thesis
    by simp
qed

subsection \<open>Round trip\<close>

text \<open>
  What the code gives on exactly k shards. For a coder with k > 0 whose zfec objects meet the
  codec contract, and for every non-empty byte string \<open>data\<close> that does not end in a zero byte:
  \<open>encode data\<close> succeeds, and decoding any k of its shards, with distinct indices below n and
  in any order, each paired with its index, returns \<open>data\<close>.
\<close>

lemma erasure_round_trip_exactly_k:
  assumes k: "0 < required_shards self"
    and enc: "systematic_encoder self"
    and dec: "any_k_decoder self"
    and ne: "data \<noteq> []" and nz: "last data \<noteq> 0"
  shows "\<exists>shards. encode self data = Inr shards \<and>
           (\<forall>nums. share_nums_ok self nums \<longrightarrow>
              decode self (map (\<lambda>i. (i, Some (shards ! i))) nums) = Inr data)"
proof -
  have ok: "chunks_ok (required_shards self) (chunks self data)"
    by (rule chunks_ok_chunks[OF k])
  with enc obtain shards where sh: "fec self (chunks self data) = Inr shards"
    unfolding systematic_encoder_def by blast
  have e: "encode self data = Inr shards"
    using k sh by (simp add: encode_def)
  have "decode self (map (\<lambda>i. (i, Some (shards ! i))) nums) = Inr data"
    if nums: "share_nums_ok self nums" for nums
  proof -
    have d: "decoder self (map (\<lambda>i. shards ! i) nums) nums = Inr (chunks self data)"
      using dec ok sh nums unfolding any_k_decoder_def by blast
    have len: "length nums = required_shards self"
      using nums by (simp add: share_nums_ok_def)
    then have nonempty: "nums \<noteq> []" using k by auto
    have "rstrip_zero (concat (chunks self data)) = data"
      by (simp add: concat_chunks[OF k] padded_data_def rstrip_zero_padded[OF ne nz])
    then show ?thesis
      using d len nonempty
      by (simp add: decode_def valid_shards_present Let_def comp_def)
  qed
  with e show ?thesis by blast
qed

lemma parity_round_trip_example:
  "decode parity_coder [(2, Some [2, 2]), (0, Some [1, 2])] = Inr [1, 2, 3]"
proof -
  have k: "0 < required_shards parity_coder" by (simp add: parity_coder_def)
  have ne: "[1, 2, 3 :: byte] \<noteq> []" by simp
  have nz: "last [1, 2, 3 :: byte] \<noteq> 0" by simp
  have nums: "share_nums_ok parity_coder [2, 0]"
    by (simp add: share_nums_ok_def parity_coder_def)
  from erasure_round_trip_exactly_k[OF k parity_systematic parity_any_k ne nz]
  obtain shards where e: "encode parity_coder [1, 2, 3] = Inr shards"
    and d: "\<forall>nums. share_nums_ok parity_coder nums \<longrightarrow>
              decode parity_coder (map (\<lambda>i. (i, Some (shards ! i))) nums) = Inr [1, 2, 3]"
    by blast
  from e have s: "shards = [[1, 2], [3, 0], [2, 2]]"
    by (simp add: parity_encode_123)
  from d nums have "decode parity_coder (map (\<lambda>i. (i, Some (shards ! i))) [2, 0]) = Inr [1, 2, 3]"
    by blast
  then show ?thesis by (simp add: s)
qed

lemma parity_decode_exactly_k:
  "length blocks \<noteq> required_shards parity_coder \<Longrightarrow>
     decoder parity_coder blocks sharenums = Inl FecError"
  by (auto simp: parity_coder_def parity_decode_def split: list.splits)

text \<open>
  Claim C1, on the code. The claim lets any subset of at least k shards decode. \<open>decode\<close>
  guards only against fewer than k valid shards (its message is "Need at least k shards") and
  then hands every valid shard to the decoder object; it never cuts the list down to k. The
  decoder of zfec takes exactly k blocks and raises on any other number. So, for every coder
  whose decoder has that precondition and every list with more than k valid shards, \<open>decode\<close>
  raises the decoder's error and returns no data, whatever the shards hold.
\<close>

theorem decode_surplus_shards_rejected:
  assumes "\<forall>blocks sharenums.
             length blocks \<noteq> required_shards self \<longrightarrow> decoder self blocks sharenums = Inl FecError"
    and "required_shards self < length (filter (\<lambda>(i, shard). shard \<noteq> None) shards)"
  shows "decode self shards = Inl FecError \<and> (\<forall>data. decode self shards \<noteq> Inr data)"
proof -
  let ?valid = "valid_shards shards"
  have len: "required_shards self < length ?valid"
    using assms(2) by (simp add: length_valid_shards)
  then have ne: "?valid \<noteq> []" by auto
  have "length (map snd ?valid) \<noteq> required_shards self"
    using len by simp
  with assms(1) have "decoder self (map snd ?valid) (map fst ?valid) = Inl FecError"
    by blast
  then have "decode self shards = Inl FecError"
    using len ne by (simp add: decode_def Let_def)
  then show ?thesis by simp
qed

theorem decode_surplus_shards_rejected_witness:
  "required_shards parity_coder
       < length (filter (\<lambda>(i, shard). shard \<noteq> None)
           [(0::nat, Some [1, 2 :: byte]), (1, Some [3, 0]), (2, Some [2, 2])])
   \<and> encode parity_coder [1, 2, 3] = Inr [[1, 2], [3, 0], [2, 2]]
   \<and> decode parity_coder [(0, Some [1, 2]), (1, Some [3, 0]), (2, Some [2, 2])] = Inl FecError"
proof -
  have p: "\<forall>blocks sharenums.
      length blocks \<noteq> required_shards parity_coder \<longrightarrow>
      decoder parity_coder blocks sharenums = Inl FecError"
    using parity_decode_exactly_k by blast
  have s: "required_shards parity_coder
       < length (filter (\<lambda>(i, shard). shard \<noteq> None)
           [(0::nat, Some [1, 2 :: byte]), (1, Some [3, 0]), (2, Some [2, 2])])"
    by (simp add: parity_coder_def)
  from decode_surplus_shards_rejected[OF p s] s parity_encode_123 show ?thesis
    by blast
qed

section \<open>Properties of the Merkle root\<close>

lemma range_step2_Suc_Suc: "range_step2 (Suc (Suc n)) = 0 # map (\<lambda>i. i + 2) (range_step2 n)"
proof -
  have "[0..<Suc ((n + 1) div 2)] = 0 # map Suc [0..<(n + 1) div 2]"
    by (simp add: upt_conv_Cons map_Suc_upt del: upt_Suc)
  then show ?thesis
    by (simp add: range_step2_def comp_def del: upt_Suc)
qed

lemma new_level_pair_up: "new_level sha256 hs = pair_up sha256 hs"
proof (induction sha256 hs rule: pair_up.induct)
  case (1 sha256 l r rest)
  have "new_level sha256 (l # r # rest) = sha256 (l @ r) # new_level sha256 rest"
    unfolding new_level_def
    by (simp add: range_step2_Suc_Suc comp_def Let_def)
  with 1 show ?case by simp
next
  case (2 sha256 l)
  show ?case by (simp add: new_level_def range_step2_def)
next
  case (3 sha256)
  show ?case by (simp add: new_level_def range_step2_def)
qed

lemma merkle_loop_spec: "merkle_loop sha256 (h # hs) = [spec_merkle_root sha256 h hs]"
proof (induction sha256 h hs rule: spec_merkle_root.induct)
  case (1 sha256 h hs)
  show ?case
  proof (cases hs)
    case Nil
    then show ?thesis
      by (simp add: spec_merkle_root.simps[of sha256 h "[]"] merkle_loop.simps[of sha256 "[h]"])
  next
    case (Cons x xs)
    obtain h' hs' where p: "pair_up sha256 (h # hs) = h' # hs'"
      using Cons by simp
    with 1 Cons have "merkle_loop sha256 (h' # hs') = [spec_merkle_root sha256 h' hs']"
      by simp
    moreover have "merkle_loop sha256 (h # hs) = merkle_loop sha256 (pair_up sha256 (h # hs))"
      using Cons by (subst merkle_loop.simps) (simp add: new_level_pair_up)
    moreover have "spec_merkle_root sha256 h hs = spec_merkle_root sha256 h' hs'"
      using Cons p by (subst spec_merkle_root.simps) simp
    ultimately show ?thesis using p by simp
  qed
qed

text \<open>
  Claim C9. \<open>compute_merkle_root\<close> never raises: on the empty list it returns the empty
  string, and on a non-empty list \<open>c # cs\<close> it returns the base64 text of the Merkle root of the
  chunk digests, the root being the one of the spec's words, in which the unpaired last node of
  a level is hashed with a copy of itself.
\<close>

theorem compute_merkle_root_total:
  "compute_merkle_root sha256 [] = Inr ''''
   \<and> compute_merkle_root sha256 (c # cs)
       = Inr (b64encode (spec_merkle_root sha256 (sha256 c) (map sha256 cs)))"
  by (simp add: compute_merkle_root_def merkle_loop_spec)

section \<open>Properties of the transfer statistics\<close>

text \<open>
  Claim C10. \<open>get_transfer_stats\<close> never raises ZeroDivisionError, whatever the counters
  hold. For counters that are not negative (they start at 0 and are only incremented): when
  uploads + downloads + failures = 0 the success rate is 0, and otherwise it is
  (uploads + downloads) / (uploads + downloads + failures).
\<close>

theorem get_transfer_stats_total:
  "\<exists>success_rate. get_transfer_stats self = Inr (self, success_rate)
     \<and> (uploads self + downloads self + failures self = 0 \<longrightarrow> success_rate = 0)
     \<and> (0 \<le> uploads self \<and> 0 \<le> downloads self \<and> 0 \<le> failures self
          \<and> uploads self + downloads self + failures self \<noteq> 0 \<longrightarrow>
         success_rate = of_int (uploads self + downloads self)
                          / of_int (uploads self + downloads self + failures self))"
  by (auto simp: get_transfer_stats_def py_truediv_def)

theorem get_transfer_stats_total_witness:
  "get_transfer_stats \<lparr>uploads = 0, downloads = 0, bytes_sent = 0, bytes_received = 0, failures = 0\<rparr>
     = Inr (\<lparr>uploads = 0, downloads = 0, bytes_sent = 0, bytes_received = 0, failures = 0\<rparr>, 0)
   \<and> get_transfer_stats \<lparr>uploads = 3, downloads = 1, bytes_sent = 30, bytes_received = 10, failures = 1\<rparr>
     = Inr (\<lparr>uploads = 3, downloads = 1, bytes_sent = 30, bytes_received = 10, failures = 1\<rparr>, 4 / 5)"
  using get_transfer_stats_total[of "\<lparr>uploads = 0, downloads = 0, bytes_sent = 0, bytes_received = 0, failures = 0\<rparr>"]
    get_transfer_stats_total[of "\<lparr>uploads = 3, downloads = 1, bytes_sent = 30, bytes_received = 10, failures = 1\<rparr>"]
  by auto

section \<open>Properties of register\_file\<close>

lemma find_update_first:
  "find P xs = Some x \<Longrightarrow> (\<And>y. P y \<Longrightarrow> P (f y)) \<Longrightarrow> find P (update_first P f xs) = Some (f x)"
  by (induction xs) (auto split: if_splits)

lemma length_update_first: "length (update_first P f xs) = length xs"
  by (induction xs) auto

lemma filter_update_first:
  "(\<And>y. P y \<Longrightarrow> P (f y)) \<Longrightarrow> filter (\<lambda>x. \<not> P x) (update_first P f xs) = filter (\<lambda>x. \<not> P x) xs"
  by (induction xs) auto

text \<open>
  Claim C7, as the code has it. When the file hash is already known, \<open>register_file\<close>
  replaces the stored \<^verbatim>\<open>shard_locations\<close> by the submitted one: the row found for the hash
  afterwards is the old row with only \<^verbatim>\<open>shard_locations\<close> changed, the table keeps its length
  and every row of another file hash, and a pair (shard index, peer id) is stored afterwards
  exactly when the submitted \<^verbatim>\<open>shard_locations\<close> contains it. So a location held before
  survives exactly when the new request lists it again.
\<close>

theorem register_file_replaces_locations:
  assumes "query_first db (file_metadata.file_hash metadata) = Some existing"
  shows "query_first (fst (register_file db new_id now metadata)) (file_metadata.file_hash metadata)
           = Some (existing\<lparr>file_metadata_db.shard_locations := file_metadata.shard_locations metadata\<rparr>)
         \<and> length (fst (register_file db new_id now metadata)) = length db
         \<and> filter (\<lambda>row. file_metadata_db.file_hash row \<noteq> file_metadata.file_hash metadata)
              (fst (register_file db new_id now metadata))
            = filter (\<lambda>row. file_metadata_db.file_hash row \<noteq> file_metadata.file_hash metadata) db
         \<and> (\<forall>idx peer.
               has_location (stored_locations (fst (register_file db new_id now metadata))
                               (file_metadata.file_hash metadata)) idx peer
               \<longleftrightarrow> has_location (file_metadata.shard_locations metadata) idx peer)"
proof -
  let ?h = "file_metadata.file_hash metadata"
  let ?P = "\<lambda>row. file_metadata_db.file_hash row = ?h"
  let ?f = "\<lambda>existing. existing\<lparr>file_metadata_db.shard_locations := file_metadata.shard_locations metadata\<rparr>"
  have db': "fst (register_file db new_id now metadata) = update_first ?P ?f db"
    using assms by (simp add: register_file_def Let_def)
  have "find ?P db = Some existing"
    using assms by (simp add: query_first_def)
  then have q: "query_first (update_first ?P ?f db) ?h = Some (?f existing)"
    unfolding query_first_def
    by (rule find_update_first) simp
  have f: "filter (\<lambda>row. \<not> ?P row) (update_first ?P ?f db) = filter (\<lambda>row. \<not> ?P row) db"
    by (rule filter_update_first) simp
  show ?thesis
    unfolding db' using q f
    by (simp add: length_update_first stored_locations_def)
qed

theorem register_file_replaces_locations_witness:
  "query_first (fst (register_file [] ''id1'' 5 (manifest_on ''peerA'')))
       (file_metadata.file_hash (manifest_on ''peerA'' \<lparr>file_metadata.shard_locations := [0 \<mapsto> [''peerA'', ''peerB'']]\<rparr>))
     \<noteq> None
   \<and> has_location
        (stored_locations
           (fst (register_file (fst (register_file [] ''id1'' 5 (manifest_on ''peerA''))) ''id2'' 9
                   (manifest_on ''peerA'' \<lparr>file_metadata.shard_locations := [0 \<mapsto> [''peerA'', ''peerB'']]\<rparr>)))
           ''h1'')
        0 ''peerB''"
proof -
  let ?db = "fst (register_file [] ''id1'' 5 (manifest_on ''peerA''))"
  let ?m = "manifest_on ''peerA'' \<lparr>file_metadata.shard_locations := [0 \<mapsto> [''peerA'', ''peerB'']]\<rparr>"
  obtain existing where e: "query_first ?db (file_metadata.file_hash ?m) = Some existing"
    by (simp add: register_file_def query_first_def manifest_on_def)
  have h: "file_metadata.file_hash ?m = ''h1''" by (simp add: manifest_on_def)
  from register_file_replaces_locations[OF e, of "''id2''" 9]
  have "has_location (stored_locations (fst (register_file ?db ''id2'' 9 ?m)) (file_metadata.file_hash ?m)) 0 ''peerB''
        \<longleftrightarrow> has_location (file_metadata.shard_locations ?m) 0 ''peerB''"
    by blast
  then have "has_location (stored_locations (fst (register_file ?db ''id2'' 9 ?m)) ''h1'') 0 ''peerB''"
    unfolding h by (simp add: has_location_def)
  with e show ?thesis by simp
qed

text \<open>
  Claim C7 as stated fails: the handler assigns the submitted dict, it does not merge. A file
  registered with both shards on peer A and registered again with both shards on peer B has
  lost the pair (0, peer A).
\<close>

theorem register_file_drops_location_counterexample:
  "has_location (stored_locations (fst (register_file [] ''id1'' 5 (manifest_on ''peerA''))) ''h1'')
     0 ''peerA''
   \<and> \<not> has_location
         (stored_locations
            (fst (register_file (fst (register_file [] ''id1'' 5 (manifest_on ''peerA''))) ''id2'' 9
                    (manifest_on ''peerB'')))
            ''h1'')
         0 ''peerA''"
  by (simp add: register_file_def query_first_def stored_locations_def has_location_def
      manifest_on_def)

section \<open>Properties of the node identity\<close>

lemma length_b64_alphabet: "length b64_alphabet = 64"
  by (simp add: b64_alphabet_def)

lemma b64_char_in_alphabet: "b64_char n \<in> set b64_alphabet"
  unfolding b64_char_def
  by (rule nth_mem) (simp add: length_b64_alphabet)

lemma b64encode_triples:
  "length xs = 3 * n \<Longrightarrow>
     b64encode (xs @ ys) = b64encode xs @ b64encode ys
     \<and> length (b64encode xs) = 4 * n
     \<and> set (b64encode xs) \<subseteq> set b64_alphabet"
proof (induction n arbitrary: xs)
  case 0
  then show ?case by simp
next
  case (Suc n)
  then obtain a b c rest where xs: "xs = a # b # c # rest" and rest: "length rest = 3 * n"
    by (cases xs; cases "tl xs"; cases "tl (tl xs)") auto
  from Suc.IH[OF rest] show ?case
    by (simp add: xs Let_def b64_char_in_alphabet)
qed

lemma take16_b64encode:
  assumes "12 \<le> length d"
  shows "take 16 (b64encode d) = b64encode (take 12 d)"
    and "length (b64encode (take 12 d)) = 16"
    and "set (b64encode (take 12 d)) \<subseteq> set b64_alphabet"
proof -
  have l: "length (take 12 d) = 3 * 4" using assms by simp
  note t = b64encode_triples[OF l]
  from t[of "drop 12 d"] have "b64encode d = b64encode (take 12 d) @ b64encode (drop 12 d)"
    by simp
  moreover from t[of "[]"] show "length (b64encode (take 12 d)) = 16" by simp
  ultimately show "take 16 (b64encode d) = b64encode (take 12 d)" by simp
  from t[of "[]"] show "set (b64encode (take 12 d)) \<subseteq> set b64_alphabet" by simp
qed

lemma example_peer_id:
  "peer_id_from_public_key example_sha256 example_public_key = ''QpvOl/qfA/iEbHMa''"
  by (simp add: peer_id_from_public_key_def example_sha256_def Let_def b64_char_def
      b64_alphabet_def)

text \<open>
  Claim C8, as the code has it. On first start (no \<^verbatim>\<open>identity.json\<close>) the peer id is the first
  16 characters of the standard Base64 text of SHA-256 over the public key PEM, which is the
  Base64 text of the first 12 digest bytes: 16 characters of the alphabet
  \<open>A-Z a-z 0-9 + /\<close>, a function of the public key alone. The method writes the identity to the
  file, and every later start on that file, whatever key pair the generator would produce,
  loads the same peer id and keys.
\<close>

theorem peer_id_base64_stable:
  assumes "length (sha256 public_key_pem) = 32"
  shows "\<exists>state' identity.
           load_or_create_identity sha256 (private_key_pem, public_key_pem) None state
             = Inr (state', Some identity)
           \<and> peer_id state' = b64encode (take 12 (sha256 public_key_pem))
           \<and> length (peer_id state') = 16
           \<and> set (peer_id state') \<subseteq> set b64_alphabet
           \<and> (\<forall>generated state2. \<exists>state3.
                 load_or_create_identity sha256 generated (Some identity) state2
                   = Inr (state3, Some identity)
                 \<and> peer_id state3 = peer_id state'
                 \<and> public_key state3 = public_key state'
                 \<and> private_key state3 = private_key state')"
proof -
  have d: "12 \<le> length (sha256 public_key_pem)" using assms by simp
  show ?thesis
    using take16_b64encode[OF d]
    by (simp add: load_or_create_identity_def peer_id_from_public_key_def)
qed

theorem peer_id_base64_stable_witness:
  "length (example_sha256 example_public_key) = 32
   \<and> (\<exists>state' identity.
         load_or_create_identity example_sha256 (example_private_key, example_public_key) None
             \<lparr>peer_id = [], public_key = [], private_key = []\<rparr>
           = Inr (state', Some identity)
         \<and> peer_id state' = ''QpvOl/qfA/iEbHMa''
         \<and> (\<exists>state3.
               load_or_create_identity example_sha256 (example_public_key, example_private_key)
                   (Some identity) \<lparr>peer_id = [], public_key = [], private_key = []\<rparr>
                 = Inr (state3, Some identity)
               \<and> peer_id state3 = ''QpvOl/qfA/iEbHMa''))"
proof -
  have h: "length (example_sha256 example_public_key) = 32"
    by (simp add: example_sha256_def)
  have p: "b64encode (take 12 (example_sha256 example_public_key)) = ''QpvOl/qfA/iEbHMa''"
    by (simp add: example_sha256_def Let_def b64_char_def b64_alphabet_def)
  from peer_id_base64_stable[of example_sha256 example_public_key example_private_key
      "\<lparr>peer_id = [], public_key = [], private_key = []\<rparr>", OF h]
  obtain state' identity where
    1: "load_or_create_identity example_sha256 (example_private_key, example_public_key) None
          \<lparr>peer_id = [], public_key = [], private_key = []\<rparr> = Inr (state', Some identity)"
    and 2: "peer_id state' = b64encode (take 12 (example_sha256 example_public_key))"
    and 3: "\<forall>generated state2. \<exists>state3.
              load_or_create_identity example_sha256 generated (Some identity) state2
                = Inr (state3, Some identity)
              \<and> peer_id state3 = peer_id state'
              \<and> public_key state3 = public_key state'
              \<and> private_key state3 = private_key state'"
    by blast
  from 3 obtain state3 where
    "load_or_create_identity example_sha256 (example_public_key, example_private_key)
        (Some identity) \<lparr>peer_id = [], public_key = [], private_key = []\<rparr>
       = Inr (state3, Some identity)"
    and "peer_id state3 = peer_id state'"
    by blast
  with h 1 2 p show ?thesis by auto
qed

text \<open>
  Claim C8 as stated calls the encoding URL-safe. The code calls \<^verbatim>\<open>base64.b64encode\<close>, whose
  alphabet has \<open>+\<close> and \<open>/\<close>, and not \<^verbatim>\<open>base64.urlsafe_b64encode\<close>: the peer id of the example
  key contains \<open>/\<close> twice.
\<close>

theorem peer_id_not_url_safe_counterexample:
  "map_sum id (\<lambda>r. peer_id (fst r))
     (load_or_create_identity example_sha256 (example_private_key, example_public_key) None
        \<lparr>peer_id = [], public_key = [], private_key = []\<rparr>)
     = Inr ''QpvOl/qfA/iEbHMa''
   \<and> \<not> url_safe ''QpvOl/qfA/iEbHMa''"
proof -
  have "\<not> url_safe ''QpvOl/qfA/iEbHMa''"
    by (simp add: url_safe_def urlsafe_alphabet_def)
  then show ?thesis
    by (simp add: load_or_create_identity_def example_peer_id)
qed

section \<open>Properties of the shard store\<close>

lemma total_bytes_update_stats:
  "total_bytes (update_stats s size_delta now) = total_bytes s + size_delta"
  by (simp add: update_stats_def)

lemma delete_shard_total_bytes:
  "total_bytes (stats (snd (delete_shard now self fh idx))) \<le> total_bytes (stats self)
   \<and> max_storage_bytes (snd (delete_shard now self fh idx)) = max_storage_bytes self"
  by (simp add: delete_shard_def Let_def total_bytes_update_stats
      split: option.splits prod.splits sum.splits)

lemma gc_loop_total_bytes:
  "total_bytes (stats (snd (gc_loop now expired self n))) \<le> total_bytes (stats self)
   \<and> max_storage_bytes (snd (gc_loop now expired self n)) = max_storage_bytes self"
proof (induction expired arbitrary: self n)
  case Nil
  show ?case by simp
next
  case (Cons row expired)
  obtain ok self' where d: "delete_shard now self (shard_row.file_hash row) (shard_index row) = (ok, self')"
    by (cases "delete_shard now self (shard_row.file_hash row) (shard_index row)")
  from delete_shard_total_bytes[of now self "shard_row.file_hash row" "shard_index row"] d
  have s: "total_bytes (stats self') \<le> total_bytes (stats self)"
    and m: "max_storage_bytes self' = max_storage_bytes self"
    by simp_all
  show ?case
  proof (cases ok)
    case True
    with d Cons.IH[of self' "n + 1"] s m show ?thesis by simp
  next
    case False
    with d Cons.IH[of self' n] s m show ?thesis by simp
  qed
qed

lemma garbage_collect_total_bytes:
  "total_bytes (stats (snd (garbage_collect now self))) \<le> total_bytes (stats self)
   \<and> max_storage_bytes (snd (garbage_collect now self)) = max_storage_bytes self"
proof -
  obtain n self' where g: "gc_loop now (expired_rows now (shards_table self)) self 0 = (n, self')"
    by (cases "gc_loop now (expired_rows now (shards_table self)) self 0")
  from gc_loop_total_bytes[of now "expired_rows now (shards_table self)" self 0] g
  show ?thesis by (simp add: garbage_collect_def)
qed

text \<open>
  Claim C5. When \<^verbatim>\<open>total_bytes + len(shard_data)\<close> exceeds the quota, \<open>store_shard\<close> raises the
  quota exception and the store (directory, index, statistics) is what it was. Whenever
  \<open>store_shard\<close> returns a shard hash, \<^verbatim>\<open>total_bytes\<close> is at most the quota afterwards, equality
  allowed. \<open>delete_shard\<close> and \<open>garbage_collect\<close> never raise \<^verbatim>\<open>total_bytes\<close> and leave the
  quota as it is, so they keep \<^verbatim>\<open>total_bytes \<le> quota\<close>.
\<close>

theorem store_quota_invariant:
  "(total_bytes (stats self) + int (length shard_data) > max_storage_bytes self \<longrightarrow>
      store_shard sha256_hex now self fh idx shard_data owner expires
        = (Inl Exception_QuotaExceeded, self))
   \<and> (\<forall>sh self'. store_shard sha256_hex now self fh idx shard_data owner expires = (Inr sh, self')
         \<longrightarrow> total_bytes (stats self') \<le> max_storage_bytes self')
   \<and> (total_bytes (stats self) \<le> max_storage_bytes self \<longrightarrow>
         total_bytes (stats (snd (delete_shard now self fh idx)))
           \<le> max_storage_bytes (snd (delete_shard now self fh idx))
         \<and> total_bytes (stats (snd (garbage_collect now self)))
           \<le> max_storage_bytes (snd (garbage_collect now self)))"
proof (intro conjI impI allI)
  assume "total_bytes (stats self) + int (length shard_data) > max_storage_bytes self"
  then show "store_shard sha256_hex now self fh idx shard_data owner expires
               = (Inl Exception_QuotaExceeded, self)"
    by (simp add: store_shard_def check_quota_def)
next
  fix sh self'
  assume "store_shard sha256_hex now self fh idx shard_data owner expires = (Inr sh, self')"
  then show "total_bytes (stats self') \<le> max_storage_bytes self'"
    by (auto simp: store_shard_def check_quota_def Let_def total_bytes_update_stats
        split: if_splits)
next
  assume inv: "total_bytes (stats self) \<le> max_storage_bytes self"
  from delete_shard_total_bytes[of now self fh idx] inv
  show "total_bytes (stats (snd (delete_shard now self fh idx)))
          \<le> max_storage_bytes (snd (delete_shard now self fh idx))"
    by simp
  from garbage_collect_total_bytes[of now self] inv
  show "total_bytes (stats (snd (garbage_collect now self)))
          \<le> max_storage_bytes (snd (garbage_collect now self))"
    by simp
qed

lemma example_store_eq:
  "example_store =
     \<lparr>max_storage_bytes = 10, shards_dir = [(''f1_0_0a.shard'', [1, 2, 3, 4])],
      shards_table =
        [\<lparr>shard_hash = ''0a'', shard_row.file_hash = ''f1'', shard_index = 0, size_bytes = 4,
          stored_at = 1, last_verified = Some 1, shard_row.peer_id = None,
          shard_row.expires_at = Some 5\<rparr>],
      stats = \<lparr>storage_stats.total_shards = 1, total_bytes = 4, last_gc = None,
               updated_at = 1\<rparr>\<rparr>"
  by (simp add: example_store_def empty_store_def store_shard_def check_quota_def Let_def
      sum_hex_def hex_digit_def shard_filename_def str_int_def str_nat.simps[of 0] digit_char_def
      write_file_def insert_or_replace_def update_stats_def)

theorem store_quota_invariant_witness:
  "total_bytes (stats example_store) + int (length [1, 1, 1, 1, 1, 1, 1 :: byte])
     > max_storage_bytes example_store
   \<and> store_shard sum_hex 2 example_store ''f2'' 0 [1, 1, 1, 1, 1, 1, 1] None None
       = (Inl Exception_QuotaExceeded, example_store)
   \<and> store_shard sum_hex 1 empty_store ''f1'' 0 [1, 2, 3, 4] None (Some 5) = (Inr ''0a'', example_store)
   \<and> total_bytes (stats example_store) \<le> max_storage_bytes example_store
   \<and> total_bytes (stats (snd (delete_shard 9 example_store ''f1'' 0)))
       \<le> max_storage_bytes (snd (delete_shard 9 example_store ''f1'' 0))
   \<and> total_bytes (stats (snd (garbage_collect 9 example_store)))
       \<le> max_storage_bytes (snd (garbage_collect 9 example_store))"
proof -
  have over: "total_bytes (stats example_store) + int (length [1, 1, 1, 1, 1, 1, 1 :: byte])
                > max_storage_bytes example_store"
    by (simp add: example_store_eq)
  have stored: "store_shard sum_hex 1 empty_store ''f1'' 0 [1, 2, 3, 4] None (Some 5)
                  = (Inr ''0a'', example_store)"
    by (simp add: example_store_def)
       (simp add: store_shard_def empty_store_def check_quota_def Let_def sum_hex_def hex_digit_def)
  note a = store_quota_invariant[of example_store "[1, 1, 1, 1, 1, 1, 1]" sum_hex 2 "''f2''" 0 None None]
  note b = store_quota_invariant[of empty_store "[1, 2, 3, 4]" sum_hex 1 "''f1''" 0 None "Some 5"]
  note c = store_quota_invariant[of example_store "[]" sum_hex 9 "''f1''" 0 None None]
  from a over have 1: "store_shard sum_hex 2 example_store ''f2'' 0 [1, 1, 1, 1, 1, 1, 1] None None
       = (Inl Exception_QuotaExceeded, example_store)"
    by blast
  from b stored have 2: "total_bytes (stats example_store) \<le> max_storage_bytes example_store"
    by blast
  from c 2 have 3: "total_bytes (stats (snd (delete_shard 9 example_store ''f1'' 0)))
       \<le> max_storage_bytes (snd (delete_shard 9 example_store ''f1'' 0))
     \<and> total_bytes (stats (snd (garbage_collect 9 example_store)))
       \<le> max_storage_bytes (snd (garbage_collect 9 example_store))"
    by blast
  from over 1 stored 2 3 show ?thesis by blast
qed

subsection \<open>The hash recorded in a file name\<close>








subsection \<open>Integrity check on retrieval\<close>


subsection \<open>Finding the file that was stored\<close>












section \<open>Properties of decryption and retrieval\<close>

text \<open>
  What \<open>decrypt_file\<close> does when it is called with a password and a metadata dict that holds
  salt and nonce: it raises the decryption ValueError exactly when AES-GCM decryption under the
  derived key raises, and returns the plaintext of AES-GCM otherwise.
\<close>

lemma decrypt_file_raises_iff:
  assumes "metadata ''salt'' = Some salt" and "metadata ''nonce'' = Some nonce"
  shows "decrypt_file pbkdf2 aesgcm_decrypt urandom16 encrypted_data (Some pw) metadata =
           (case aesgcm_decrypt (pbkdf2 (py_encode pw) salt) nonce encrypted_data of
              Inl e \<Rightarrow> Inl ValueError_DecryptionFailed
            | Inr plaintext \<Rightarrow> Inr plaintext)"
  using assms
  by (simp add: decrypt_file_def decrypt_data_def derive_key_def split: sum.splits)

text \<open>
  The later steps of \<open>retrieve_file\<close>, each on its own. \<^verbatim>\<open>TransferService\<close> has no
  \<^verbatim>\<open>request_shard\<close>, so no peer ever yields a shard and \<open>collect_shards\<close> returns the empty
  list or, for a manifest that requires at least one shard, raises its ValueError. The call of
  \<open>decrypt_file\<close> without \<^verbatim>\<open>metadata\<close> raises TypeError whatever the ciphertext and password.
\<close>

lemma try_peers_none: "try_peers sha256 request_shard metadata idx peers = None"
  by (induction peers) (simp_all add: getattr_def TransferService_attributes_def)

lemma collect_loop_nothing:
  "collect_loop sha256 request_shard metadata idxs shards = shards"
  by (induction idxs arbitrary: shards) (simp_all add: try_peers_none)

lemma collect_shards_never_collects:
  "collect_shards sha256 request_shard metadata =
     (if 0 < file_metadata.shards_required metadata
      then Inl (ValueError_NotEnoughShards (file_metadata.shards_required metadata) 0)
      else Inr [])"
  by (simp add: collect_shards_def collect_loop_nothing)

lemma call_decrypt_file_without_metadata:
  "call_decrypt_file pbkdf2 aesgcm_decrypt urandom16 encrypted_data password None
     = Inl (TypeError_MissingArgument ''metadata'')"
  by (simp add: call_decrypt_file_def)

text \<open>
  Claim C2, on the code. The claim lets retrieval under a wrong password, or of a tampered
  ciphertext, fail with the decryption error, raised exactly when the AES-GCM tag does not
  verify. \<open>retrieve_file\<close> raises AttributeError at its first step, the lookup of
  \<^verbatim>\<open>self._get_file_metadata\<close>, which \<^verbatim>\<open>P2PNode\<close> does not define: for every file hash, every
  password, right or wrong, every manifest and every shard the peers hold. It never reaches
  \<open>decrypt_file\<close>, so it never raises the decryption error and its failure tells nothing about
  the password or the ciphertext.
\<close>

theorem retrieve_file_attribute_error:
  "retrieve_file pbkdf2 aesgcm_decrypt urandom16 sha256 coder get_file_metadata request_shard
       fh password = Inl AttributeError
   \<and> retrieve_file pbkdf2 aesgcm_decrypt urandom16 sha256 coder get_file_metadata request_shard
       fh password \<noteq> Inl ValueError_DecryptionFailed"
  by (simp add: retrieve_file_def getattr_def P2PNode_attributes_def)

end
